theory Spec2Isabelle
  imports Main
begin

section \<open>Tadaima: domain records\<close>

text \<open>
  Modelled from the spec: the headers \<open>lessons/Lesson.h\<close> (structs \<open>Word\<close> and \<open>Lesson\<close>)
  are not among the sources. The fields are those of section 3 of the specification, in
  the order in which LessonManagerTest.cpp and LessonsDatabase.cpp initialise and assign
  them (\<open>Lesson{1, "Main Name 1", "Sub Name 1", {}}\<close>). The field \<open>id\<close> of each struct is
  named \<open>word_id\<close> and \<open>lesson_id\<close> here.
\<close>

record Word =
  word_id :: int
  kana :: string
  translation :: string
  romaji :: string
  exampleSentence :: string
  tags :: "string list"

record Lesson =
  lesson_id :: int
  mainName :: string
  subName :: string
  words :: "Word list"

section \<open>The lesson store (LessonsDatabase.cpp)\<close>

text \<open>
  The storage backend keeps three SQLite tables. The model holds each table as the list of
  its rows in iteration order (ascending rowid, the order in which an unordered SELECT
  visits them), together with the AUTOINCREMENT counter of the table and the lines the
  logger has received. Text values are HOL strings, which like \<open>std::string\<close> may hold the
  character NUL anywhere.
\<close>

subsection \<open>Logger\<close>

datatype LogLevel = INFO | PROBLEM

type_synonym log_line = "string \<times> LogLevel"

subsection \<open>Rows of the schema created by initDatabase\<close>

text \<open>
  \<^verbatim>\<open>lessons(id INTEGER PRIMARY KEY AUTOINCREMENT, main_name TEXT NOT NULL, sub_name TEXT NOT NULL)\<close>
  \<^verbatim>\<open>words(id ..., lesson_id INTEGER, kana TEXT NOT NULL, translation TEXT NOT NULL, romaji TEXT,
   example_sentence TEXT, FOREIGN KEY(lesson_id) REFERENCES lessons(id))\<close>
  \<^verbatim>\<open>tags(id ..., word_id INTEGER, tag TEXT NOT NULL, FOREIGN KEY(word_id) REFERENCES words(id))\<close>
  Columns without NOT NULL may hold NULL, which is \<open>None\<close>. Neither foreign key carries
  an ON DELETE clause, and the program never switches foreign-key enforcement on.
\<close>

record lesson_row =
  l_id :: int
  l_main_name :: string
  l_sub_name :: string

record word_row =
  w_id :: int
  w_lesson_id :: "int option"
  w_kana :: string
  w_translation :: string
  w_romaji :: "string option"
  w_example_sentence :: "string option"

record tag_row =
  t_id :: int
  t_word_id :: "int option"
  t_tag :: string

record LessonsDatabase =
  lessons_tbl :: "lesson_row list"
  words_tbl :: "word_row list"
  tags_tbl :: "tag_row list"
  lessons_seq :: int
  words_seq :: int
  tags_seq :: int
  m_logger :: "log_line list"

subsection \<open>The SQLite calls\<close>

text \<open>
  What SQLite answers is not decided by the program: each operation receives the answer
  of its statement as an argument. \<open>PrepareError\<close>: \<open>sqlite3_prepare_v2\<close> did not return
  \<open>SQLITE_OK\<close>. \<open>StepError msg\<close>: the statement was prepared and \<open>sqlite3_step\<close> did not
  return \<open>SQLITE_DONE\<close>; \<open>msg\<close> is \<open>sqlite3_errmsg(db)\<close>, and the statement changed nothing.
  \<open>StepDone\<close>: the statement ran.
\<close>

datatype sql_result = PrepareError | StepError string | StepDone

text \<open>
  A SELECT is stepped while \<open>sqlite3_step\<close> returns \<open>SQLITE_ROW\<close>. \<open>SelectStops n\<close>: some
  other code came back after \<open>n\<close> rows; \<open>SelectDone\<close>: every row was visited.
\<close>

datatype select_result = SelectPrepareError | SelectStops nat | SelectDone

definition visited :: "select_result \<Rightarrow> 'a list \<Rightarrow> 'a list" where
  "visited r rows = (case r of SelectPrepareError \<Rightarrow> [] | SelectStops n \<Rightarrow> take n rows | SelectDone \<Rightarrow> rows)"

text \<open>
  The rowid SQLite gives a new row of a table with AUTOINCREMENT: one above the largest
  rowid present (1 when the table is empty), and at least one above the table's counter
  in \<open>sqlite_sequence\<close>, whichever is larger. The counter then takes this value.
  (Row ids are 64-bit: where the counter or the largest rowid is \<open>2^63 - 1\<close> SQLite
  answers \<open>SQLITE_FULL\<close>, a \<open>StepError\<close>, and inserts nothing.)
\<close>

definition next_rowid :: "int \<Rightarrow> int list \<Rightarrow> int" where
  "next_rowid seq ids =
     max (case ids of [] \<Rightarrow> 1 | i # is \<Rightarrow> fold max is i + 1) (seq + 1)"

text \<open>
  \<open>static_cast<int>\<close> of the 64-bit \<open>sqlite3_last_insert_rowid\<close>: the value modulo
  \<open>2^32\<close>, read as a signed 32-bit integer. After an INSERT that ran, the last insert
  rowid is the rowid of the new row, which is also the new value of the table's counter.
\<close>

definition static_cast_int :: "int \<Rightarrow> int" where
  "static_cast_int x = (x + 2147483648) mod 4294967296 - 2147483648"

text \<open>\<open>std::to_string\<close> on an int: decimal digits, with a minus sign below zero.\<close>

definition digit_char :: "nat \<Rightarrow> char" where
  "digit_char d = ''0123456789'' ! d"

fun digits :: "nat \<Rightarrow> string" where
  "digits n = (if n < 10 then [digit_char n] else digits (n div 10) @ [digit_char (n mod 10)])"

definition to_string :: "int \<Rightarrow> string" where
  "to_string i = (if i < 0 then CHR ''-'' # digits (nat (- i)) else digits (nat i))"

text \<open>
  Every text is bound as \<open>sqlite3_bind_text(stmt, i, s.c_str(), -1, SQLITE_STATIC)\<close> and
  every column is read as \<open>std::string(reinterpret_cast<const char*>(sqlite3_column_text(...)))\<close>:
  in both directions the text ends before its first NUL character.
\<close>

definition c_str :: "string \<Rightarrow> string" where
  "c_str s = takeWhile (\<lambda>c. c \<noteq> CHR 0x00) s"

definition no_NUL :: "string \<Rightarrow> bool" where
  "no_NUL s = (CHR 0x00 \<notin> set s)"

definition log_to :: "string \<Rightarrow> LogLevel \<Rightarrow> LessonsDatabase \<Rightarrow> LessonsDatabase" where
  "log_to msg lvl db = db\<lparr>m_logger := m_logger db @ [(msg, lvl)]\<rparr>"

text \<open>A database file in which initDatabase has just created the three tables.\<close>

definition empty_db :: LessonsDatabase where
  "empty_db = \<lparr>lessons_tbl = [], words_tbl = [], tags_tbl = [],
               lessons_seq = 0, words_seq = 0, tags_seq = 0, m_logger = []\<rparr>"

subsection \<open>addLesson, addWord, addTag\<close>

definition insert_lesson :: "string \<Rightarrow> string \<Rightarrow> LessonsDatabase \<Rightarrow> LessonsDatabase" where
  "insert_lesson mainName' subName' db =
     (let rid = next_rowid (lessons_seq db) (map l_id (lessons_tbl db))
      in db\<lparr>lessons_tbl := lessons_tbl db @ [\<lparr>l_id = rid, l_main_name = c_str mainName', l_sub_name = c_str subName'\<rparr>],
            lessons_seq := rid\<rparr>)"

definition addLesson :: "sql_result \<Rightarrow> string \<Rightarrow> string \<Rightarrow> LessonsDatabase \<Rightarrow> int \<times> LessonsDatabase" where
  "addLesson r mainName' subName' db =
     (case r of
        PrepareError \<Rightarrow> (- 1, db)
      | StepError msg \<Rightarrow>
          (- 1, log_to (''Database: SQL error while adding lesson: '' @ msg) PROBLEM db)
      | StepDone \<Rightarrow>
          (let db1 = insert_lesson mainName' subName' db;
               lessonId = static_cast_int (lessons_seq db1)
           in (lessonId,
               log_to (''Database: Added lesson with ID '' @ to_string lessonId @ '', mainName: '' @ mainName'
                         @ '', subName: '' @ subName') INFO db1)))"

definition insert_word :: "int \<Rightarrow> Word \<Rightarrow> LessonsDatabase \<Rightarrow> LessonsDatabase" where
  "insert_word lessonId word db =
     (let rid = next_rowid (words_seq db) (map w_id (words_tbl db))
      in db\<lparr>words_tbl := words_tbl db @
               [\<lparr>w_id = rid, w_lesson_id = Some lessonId, w_kana = c_str (kana word),
                 w_translation = c_str (translation word), w_romaji = Some (c_str (romaji word)),
                 w_example_sentence = Some (c_str (exampleSentence word))\<rparr>],
            words_seq := rid\<rparr>)"

definition addWord :: "sql_result \<Rightarrow> int \<Rightarrow> Word \<Rightarrow> LessonsDatabase \<Rightarrow> int \<times> LessonsDatabase" where
  "addWord r lessonId word db =
     (case r of
        PrepareError \<Rightarrow> (- 1, db)
      | StepError msg \<Rightarrow>
          (- 1, log_to (''Database: SQL error while adding word: '' @ msg) PROBLEM db)
      | StepDone \<Rightarrow>
          (let db1 = insert_word lessonId word db;
               wordId = static_cast_int (words_seq db1)
           in (wordId,
               log_to (''Database: Added word with ID '' @ to_string wordId @ '' to lesson ID ''
                         @ to_string lessonId) INFO db1)))"

definition insert_tag :: "int \<Rightarrow> string \<Rightarrow> LessonsDatabase \<Rightarrow> LessonsDatabase" where
  "insert_tag wordId t db =
     (let rid = next_rowid (tags_seq db) (map t_id (tags_tbl db))
      in db\<lparr>tags_tbl := tags_tbl db @ [\<lparr>t_id = rid, t_word_id = Some wordId, t_tag = c_str t\<rparr>],
            tags_seq := rid\<rparr>)"

text \<open>
  In the void operations (addTag, updateLesson, updateWord, deleteLesson, deleteWord) the
  INFO line is logged after \<open>sqlite3_finalize\<close>, outside the test of the step's result.
\<close>

definition addTag :: "sql_result \<Rightarrow> int \<Rightarrow> string \<Rightarrow> LessonsDatabase \<Rightarrow> LessonsDatabase" where
  "addTag r wordId t db =
     (case r of
        PrepareError \<Rightarrow> db
      | _ \<Rightarrow>
          log_to (''Database: Added tag '' @ [CHR 0x27] @ t @ [CHR 0x27] @ '' to word ID '' @ to_string wordId) INFO
            (case r of
               StepError msg \<Rightarrow> log_to (''Database: SQL error while adding tag: '' @ msg) PROBLEM db
             | _ \<Rightarrow> insert_tag wordId t db))"

subsection \<open>updateLesson, updateWord, deleteLesson, deleteWord\<close>

definition updateLesson :: "sql_result \<Rightarrow> int \<Rightarrow> string \<Rightarrow> string \<Rightarrow> LessonsDatabase \<Rightarrow> LessonsDatabase" where
  "updateLesson r lessonId newMainName newSubName db =
     (case r of
        PrepareError \<Rightarrow> db
      | _ \<Rightarrow>
          log_to (''Database: Updated lesson ID '' @ to_string lessonId @ '' to mainName: '' @ newMainName
                    @ '', subName: '' @ newSubName) INFO
            (case r of
               StepError msg \<Rightarrow> log_to (''Database: SQL error while updating lesson: '' @ msg) PROBLEM db
             | _ \<Rightarrow> db\<lparr>lessons_tbl :=
                         map (\<lambda>row. if l_id row = lessonId
                                     then row\<lparr>l_main_name := c_str newMainName, l_sub_name := c_str newSubName\<rparr>
                                     else row)
                           (lessons_tbl db)\<rparr>))"



text \<open>
  \<^verbatim>\<open>DELETE FROM lessons WHERE id = ?;\<close> removes rows of the table \<open>lessons\<close> only: the
  schema declares no ON DELETE action, and deleteLesson issues no other statement.
\<close>

definition deleteLesson :: "sql_result \<Rightarrow> int \<Rightarrow> LessonsDatabase \<Rightarrow> LessonsDatabase" where
  "deleteLesson r lessonId db =
     (case r of
        PrepareError \<Rightarrow> db
      | _ \<Rightarrow>
          log_to (''Database: Deleted lesson ID '' @ to_string lessonId) INFO
            (case r of
               StepError msg \<Rightarrow> log_to (''Database: SQL error while deleting lesson: '' @ msg) PROBLEM db
             | _ \<Rightarrow> db\<lparr>lessons_tbl := filter (\<lambda>row. l_id row \<noteq> lessonId) (lessons_tbl db)\<rparr>))"

text \<open>\<^verbatim>\<open>DELETE FROM words WHERE id = ?;\<close> likewise removes rows of the table \<open>words\<close> only.\<close>

definition deleteWord :: "sql_result \<Rightarrow> int \<Rightarrow> LessonsDatabase \<Rightarrow> LessonsDatabase" where
  "deleteWord r wordId db =
     (case r of
        PrepareError \<Rightarrow> db
      | _ \<Rightarrow>
          log_to (''Database: Deleted word ID '' @ to_string wordId) INFO
            (case r of
               StepError msg \<Rightarrow> log_to (''Database: SQL error while deleting word: '' @ msg) PROBLEM db
             | _ \<Rightarrow> db\<lparr>words_tbl := filter (\<lambda>row. w_id row \<noteq> wordId) (words_tbl db)\<rparr>))"

subsection \<open>getLessonNames\<close>

text \<open>The loop over the rows of the SELECT, with the vector \<open>lessonNames\<close> it pushes onto.\<close>

fun getLessonNames_loop :: "lesson_row list \<Rightarrow> string list \<Rightarrow> string list" where
  "getLessonNames_loop [] lessonNames = lessonNames"
| "getLessonNames_loop (row # rows) lessonNames =
     getLessonNames_loop rows (lessonNames @ [c_str (l_main_name row) @ '' - '' @ c_str (l_sub_name row)])"

definition getLessonNames :: "select_result \<Rightarrow> LessonsDatabase \<Rightarrow> string list" where
  "getLessonNames r db = getLessonNames_loop (visited r (lessons_tbl db)) []"

text \<open>
  A store reached through the operations above: one lesson, one word of that lesson, one
  tag of that word (the first word of the test LessonManagerTest.AddLesson).
\<close>

definition word1 :: Word where
  "word1 = \<lparr>word_id = 0, kana = ''as'', translation = ''translation1'', romaji = ''romaji1'',
            exampleSentence = ''example1'', tags = [''tag1'']\<rparr>"

definition word2 :: Word where
  "word2 = \<lparr>word_id = 0, kana = ''qwe'', translation = ''translation2'', romaji = ''romaji2'',
            exampleSentence = ''example2'', tags = [''tag2'']\<rparr>"

definition db_one :: LessonsDatabase where
  "db_one = addTag StepDone 1 ''tag1''
     (snd (addWord StepDone 1 word1 (snd (addLesson StepDone ''Main Name'' ''Sub Name'' empty_db))))"


text \<open>The store \<open>db_one\<close> after a second lesson was added.\<close>

definition db_lessons :: LessonsDatabase where
  "db_lessons = snd (addLesson StepDone ''Main Name 2'' ''Sub Name 2'' db_one)"

text \<open>
  Database files that SQLite opens as well, though not written by the operations above:
  a lesson whose main name holds a NUL (\<open>'a' || char(0) || 'b'\<close>); a lessons table whose
  only row has the id \<open>-10\<close>, with the counter \<open>-20\<close>; a lessons table that holds lesson
  5 and whose counter has reached \<open>2^32 + 4\<close>.
\<close>

definition db_nul_name :: LessonsDatabase where
  "db_nul_name = empty_db\<lparr>lessons_tbl := [\<lparr>l_id = 1, l_main_name = ''a'' @ [CHR 0x00] @ ''b'', l_sub_name = ''x''\<rparr>],
                           lessons_seq := 1\<rparr>"

definition db_negative_ids :: LessonsDatabase where
  "db_negative_ids = empty_db\<lparr>lessons_tbl := [\<lparr>l_id = - 10, l_main_name = ''m'', l_sub_name = ''s''\<rparr>],
                               lessons_seq := - 20\<rparr>"

definition db_large_counter :: LessonsDatabase where
  "db_large_counter = empty_db\<lparr>lessons_tbl := [\<lparr>l_id = 5, l_main_name = ''m'', l_sub_name = ''s''\<rparr>],
                                lessons_seq := 4294967300\<rparr>"


section \<open>The lesson manager (LessonManager)\<close>

subsection \<open>The backend interface and its call trace\<close>

text \<open>
  Modelled from the spec: the interface \<open>Database\<close> that LessonManager holds a reference to
  (and that MockDatabase mocks) is not among the sources. Its operations are those of
  section 4.1 of the specification, which are the methods LessonsDatabase.cpp implements.
  A backend is a record of these operations over a state of its own; each takes the state
  and returns the new one, beside its result.
\<close>

record 's Database =
  db_addLesson :: "string \<Rightarrow> string \<Rightarrow> 's \<Rightarrow> int \<times> 's"
  db_addWord :: "int \<Rightarrow> Word \<Rightarrow> 's \<Rightarrow> int \<times> 's"
  db_addTag :: "int \<Rightarrow> string \<Rightarrow> 's \<Rightarrow> 's"
  db_updateLesson :: "int \<Rightarrow> string \<Rightarrow> string \<Rightarrow> 's \<Rightarrow> 's"
  db_updateWord :: "int \<Rightarrow> Word \<Rightarrow> 's \<Rightarrow> 's"
  db_deleteLesson :: "int \<Rightarrow> 's \<Rightarrow> 's"
  db_deleteWord :: "int \<Rightarrow> 's \<Rightarrow> 's"
  db_getLessonNames :: "'s \<Rightarrow> string list \<times> 's"
  db_getWordsInLesson :: "int \<Rightarrow> 's \<Rightarrow> Word list \<times> 's"
  db_getAllLessons :: "'s \<Rightarrow> Lesson list \<times> 's"

text \<open>One constructor for each operation of the interface, with the arguments of the call.\<close>

datatype Call =
    AddLessonCall string string
  | AddWordCall int Word
  | AddTagCall int string
  | UpdateLessonCall int string string
  | UpdateWordCall int Word
  | DeleteLessonCall int
  | DeleteWordCall int
  | GetLessonNamesCall
  | GetWordsInLessonCall int
  | GetAllLessonsCall

text \<open>
  \<open>traced B\<close> answers as the backend \<open>B\<close> does and appends every call it receives to a
  trace, as the mock of the tests records the calls it expects.
\<close>

definition traced :: "'s Database \<Rightarrow> (Call list \<times> 's) Database" where
  "traced B =
     \<lparr>db_addLesson = (\<lambda>m n (tr, s). case db_addLesson B m n s of (i, s') \<Rightarrow> (i, (tr @ [AddLessonCall m n], s'))),
      db_addWord = (\<lambda>l w (tr, s). case db_addWord B l w s of (i, s') \<Rightarrow> (i, (tr @ [AddWordCall l w], s'))),
      db_addTag = (\<lambda>i t (tr, s). (tr @ [AddTagCall i t], db_addTag B i t s)),
      db_updateLesson = (\<lambda>i m n (tr, s). (tr @ [UpdateLessonCall i m n], db_updateLesson B i m n s)),
      db_updateWord = (\<lambda>i w (tr, s). (tr @ [UpdateWordCall i w], db_updateWord B i w s)),
      db_deleteLesson = (\<lambda>i (tr, s). (tr @ [DeleteLessonCall i], db_deleteLesson B i s)),
      db_deleteWord = (\<lambda>i (tr, s). (tr @ [DeleteWordCall i], db_deleteWord B i s)),
      db_getLessonNames = (\<lambda>(tr, s). case db_getLessonNames B s of (ns, s') \<Rightarrow> (ns, (tr @ [GetLessonNamesCall], s'))),
      db_getWordsInLesson = (\<lambda>i (tr, s). case db_getWordsInLesson B i s of (ws, s') \<Rightarrow> (ws, (tr @ [GetWordsInLessonCall i], s'))),
      db_getAllLessons = (\<lambda>(tr, s). case db_getAllLessons B s of (ls, s') \<Rightarrow> (ls, (tr @ [GetAllLessonsCall], s')))\<rparr>"

subsection \<open>The manager's operations\<close>

text \<open>
  Modelled from the spec: LessonManager.cpp is not among the sources (its test
  LessonManagerTest.cpp is). Section 4.2: \<open>addLesson(lesson)\<close> "calls
  \<open>addLesson(mainName, subName)\<close>; for each word in \<open>lesson.words\<close> in order, calls
  \<open>addWord(lessonId, word)\<close>, then for each tag of that word (in order) calls
  \<open>addTag(wordId, tag)\<close>. Returns the lesson id."
\<close>

primrec addTags :: "'s Database \<Rightarrow> int \<Rightarrow> string list \<Rightarrow> 's \<Rightarrow> 's" where
  "addTags B wordId [] s = s"
| "addTags B wordId (t # ts) s = addTags B wordId ts (db_addTag B wordId t s)"

primrec addWords :: "'s Database \<Rightarrow> int \<Rightarrow> Word list \<Rightarrow> 's \<Rightarrow> 's" where
  "addWords B lessonId [] s = s"
| "addWords B lessonId (w # ws) s =
     (case db_addWord B lessonId w s of
        (wordId, s1) \<Rightarrow> addWords B lessonId ws (addTags B wordId (tags w) s1))"

definition LessonManager_addLesson :: "'s Database \<Rightarrow> Lesson \<Rightarrow> 's \<Rightarrow> int \<times> 's" where
  "LessonManager_addLesson B lesson s =
     (case db_addLesson B (mainName lesson) (subName lesson) s of
        (lessonId, s1) \<Rightarrow> (lessonId, addWords B lessonId (words lesson) s1))"

text \<open>
  Modelled from the spec: section 4.2, \<open>addLessons(lessons)\<close> "applies \<open>addLesson\<close> to each
  lesson in the input sequence, in order".
\<close>

primrec LessonManager_addLessons :: "'s Database \<Rightarrow> Lesson list \<Rightarrow> 's \<Rightarrow> 's" where
  "LessonManager_addLessons B [] s = s"
| "LessonManager_addLessons B (lesson # lessons) s =
     LessonManager_addLessons B lessons (snd (LessonManager_addLesson B lesson s))"

text \<open>
  Modelled from the spec: section 4.2, \<open>renameLessons(lessons)\<close> "for each lesson (must
  already have a valid id), calls \<open>updateLesson(id, mainName, subName)\<close>; does not touch
  words".
\<close>

primrec LessonManager_renameLessons :: "'s Database \<Rightarrow> Lesson list \<Rightarrow> 's \<Rightarrow> 's" where
  "LessonManager_renameLessons B [] s = s"
| "LessonManager_renameLessons B (lesson # lessons) s =
     LessonManager_renameLessons B lessons
       (db_updateLesson B (lesson_id lesson) (mainName lesson) (subName lesson) s)"

text \<open>
  Modelled from the spec: section 4.2, \<open>getAllLessons()\<close> "pass-through read, returned
  exactly as the backend supplies it".
\<close>

definition LessonManager_getAllLessons :: "'s Database \<Rightarrow> 's \<Rightarrow> Lesson list \<times> 's" where
  "LessonManager_getAllLessons B s = db_getAllLessons B s"

subsection \<open>The call sequences the claims describe\<close>

text \<open>
  The calls of one lesson's words, as claim C1 words them: for each word in sequence
  order \<open>addWord\<close> with the lesson id and that word, then for each tag of that word in
  sequence order \<open>addTag\<close> with the word id the backend returned for that word.
\<close>

primrec word_calls :: "'s Database \<Rightarrow> int \<Rightarrow> Word list \<Rightarrow> 's \<Rightarrow> Call list" where
  "word_calls B lessonId [] s = []"
| "word_calls B lessonId (w # ws) s =
     (case db_addWord B lessonId w s of
        (wordId, s1) \<Rightarrow>
          AddWordCall lessonId w # map (AddTagCall wordId) (tags w)
            @ word_calls B lessonId ws (addTags B wordId (tags w) s1))"

text \<open>The calls that \<open>addLesson(lesson)\<close> alone makes on the backend \<open>B\<close> in state \<open>s\<close>.\<close>

definition addLesson_calls :: "'s Database \<Rightarrow> Lesson \<Rightarrow> 's \<Rightarrow> Call list" where
  "addLesson_calls B lesson s = fst (snd (LessonManager_addLesson (traced B) lesson ([], s)))"

text \<open>
  The calls of \<open>addLesson(L1)\<close>, then those of \<open>addLesson(L2)\<close> on the state the first left,
  and so on: each lesson's calls in one block.
\<close>

primrec addLesson_blocks :: "'s Database \<Rightarrow> Lesson list \<Rightarrow> 's \<Rightarrow> Call list" where
  "addLesson_blocks B [] s = []"
| "addLesson_blocks B (lesson # lessons) s =
     addLesson_calls B lesson s @ addLesson_blocks B lessons (snd (LessonManager_addLesson B lesson s))"

subsection \<open>The mock of LessonManagerTest.cpp\<close>

text \<open>
  Modelled from the spec: MockDatabase.h is not among the sources. The tests script it with
  \<open>WillOnce(Return(...))\<close>: the state is the list of ids still to be returned by
  \<open>addLesson\<close> and \<open>addWord\<close>, and the lessons \<open>getAllLessons\<close> returns. An unscripted
  call returns gmock's default, 0 or the empty vector.
\<close>

definition next_id :: "int list \<times> Lesson list \<Rightarrow> int \<times> (int list \<times> Lesson list)" where
  "next_id s = (case s of ([], ls) \<Rightarrow> (0, ([], ls)) | (i # ids, ls) \<Rightarrow> (i, (ids, ls)))"

definition MockDatabase :: "(int list \<times> Lesson list) Database" where
  "MockDatabase =
     \<lparr>db_addLesson = (\<lambda>m n s. next_id s),
      db_addWord = (\<lambda>l w s. next_id s),
      db_addTag = (\<lambda>i t s. s),
      db_updateLesson = (\<lambda>i m n s. s),
      db_updateWord = (\<lambda>i w s. s),
      db_deleteLesson = (\<lambda>i s. s),
      db_deleteWord = (\<lambda>i s. s),
      db_getLessonNames = (\<lambda>s. ([], s)),
      db_getWordsInLesson = (\<lambda>i s. ([], s)),
      db_getAllLessons = (\<lambda>s. (snd s, s))\<rparr>"

definition test_lesson :: Lesson where
  "test_lesson = \<lparr>lesson_id = 0, mainName = ''Main Name'', subName = ''Sub Name'', words = [word1, word2]\<rparr>"

definition lesson1 :: Lesson where
  "lesson1 = \<lparr>lesson_id = 1, mainName = ''Main Name 1'', subName = ''Sub Name 1'', words = []\<rparr>"

definition lesson2 :: Lesson where
  "lesson2 = \<lparr>lesson_id = 2, mainName = ''Main Name 2'', subName = ''Sub Name 2'', words = []\<rparr>"

text \<open>The lessons of the test LessonManagerTest.AddLessons: their words carry a tag only.\<close>

definition tagged_word :: "string \<Rightarrow> Word" where
  "tagged_word t = \<lparr>word_id = 0, kana = [], translation = [], romaji = [], exampleSentence = [], tags = [t]\<rparr>"

definition lesson_a :: Lesson where
  "lesson_a = \<lparr>lesson_id = 0, mainName = ''Main Name 1'', subName = ''Sub Name 1'', words = [tagged_word ''tag1'']\<rparr>"

definition lesson_b :: Lesson where
  "lesson_b = \<lparr>lesson_id = 0, mainName = ''Main Name 2'', subName = ''Sub Name 2'', words = [tagged_word ''tag2'']\<rparr>"

section \<open>Properties of the lesson store\<close>

subsection \<open>Row ids, rendered numbers, C strings\<close>

lemma to_string_samples:
  "to_string 0 = ''0'' \<and> to_string 42 = ''42'' \<and> to_string (- 7) = ''-7'' \<and> to_string 120 = ''120''"
  by (simp add: to_string_def digit_char_def)

lemma fold_max_ge_init: "(s::int) \<le> fold max ids s"
proof (induction ids arbitrary: s)
  case Nil
  show ?case by simp
next
  case (Cons a ids)
  have "s \<le> max a s" by simp
  also have "\<dots> \<le> fold max ids (max a s)" by (rule Cons.IH)
  finally show ?case by simp
qed

lemma fold_max_ge_mem: "(x::int) \<in> set ids \<Longrightarrow> x \<le> fold max ids s"
proof (induction ids arbitrary: s)
  case Nil
  then show ?case by simp
next
  case (Cons a ids)
  show ?case
  proof (cases "x = a")
    case True
    have "a \<le> max a s" by simp
    also have "\<dots> \<le> fold max ids (max a s)" by (rule fold_max_ge_init)
    finally show ?thesis using True by simp
  next
    case False
    with Cons.prems have "x \<in> set ids" by simp
    then have "x \<le> fold max ids (max a s)" by (rule Cons.IH)
    then show ?thesis by simp
  qed
qed

lemma next_rowid_gt_mem:
  assumes "x \<in> set ids"
  shows "x < next_rowid s ids"
proof (cases ids)
  case Nil
  with assms show ?thesis by simp
next
  case (Cons i rest)
  have "x \<le> fold max rest i"
  proof (cases "x = i")
    case True
    then show ?thesis by (simp add: fold_max_ge_init)
  next
    case False
    with assms Cons have "x \<in> set rest" by simp
    then show ?thesis by (rule fold_max_ge_mem)
  qed
  then show ?thesis
    using Cons by (simp add: next_rowid_def)
qed

lemma next_rowid_fresh: "next_rowid s ids \<notin> set ids"
  using next_rowid_gt_mem [of "next_rowid s ids" ids s] by auto

lemma next_rowid_gt_seq: "s < next_rowid s ids"
  by (simp add: next_rowid_def)

lemma next_rowid_empty: "next_rowid s [] = max 1 (s + 1)"
  by (simp add: next_rowid_def)

lemma static_cast_int_id: "- 2147483648 \<le> x \<Longrightarrow> x < 2147483648 \<Longrightarrow> static_cast_int x = x"
  by (simp add: static_cast_int_def)

lemma c_str_no_NUL: "no_NUL s \<Longrightarrow> c_str s = s"
  by (auto simp add: c_str_def no_NUL_def takeWhile_eq_all_conv)

lemma no_NUL_c_str: "no_NUL (c_str s)"
  by (auto simp add: c_str_def no_NUL_def dest: set_takeWhileD)

lemma c_str_samples:
  "c_str ''Main Name'' = ''Main Name'' \<and> c_str (''a'' @ [CHR 0x00] @ ''b'') = ''a'' \<and> c_str [] = []"
  by (simp add: c_str_def)

subsection \<open>The sample stores\<close>

lemma db_one_tables:
  "lessons_tbl db_one = [\<lparr>l_id = 1, l_main_name = ''Main Name'', l_sub_name = ''Sub Name''\<rparr>]
   \<and> words_tbl db_one = [\<lparr>w_id = 1, w_lesson_id = Some 1, w_kana = ''as'', w_translation = ''translation1'',
                          w_romaji = Some ''romaji1'', w_example_sentence = Some ''example1''\<rparr>]
   \<and> tags_tbl db_one = [\<lparr>t_id = 1, t_word_id = Some 1, t_tag = ''tag1''\<rparr>]
   \<and> lessons_seq db_one = 1 \<and> words_seq db_one = 1 \<and> tags_seq db_one = 1"
  by (simp add: db_one_def word1_def addTag_def addWord_def addLesson_def empty_db_def insert_tag_def
      insert_word_def insert_lesson_def log_to_def next_rowid_def static_cast_int_def c_str_def Let_def)


lemma db_lessons_table:
  "lessons_tbl db_lessons = [\<lparr>l_id = 1, l_main_name = ''Main Name'', l_sub_name = ''Sub Name''\<rparr>,
                            \<lparr>l_id = 2, l_main_name = ''Main Name 2'', l_sub_name = ''Sub Name 2''\<rparr>]"
  by (simp add: db_lessons_def addLesson_def db_one_tables insert_lesson_def log_to_def next_rowid_def
      static_cast_int_def c_str_def Let_def)

subsection \<open>deleteLesson\<close>

text \<open>
  Claim C2, as stated: after \<open>deleteLesson(L)\<close> no lesson row with id \<open>L\<close>, no word row with
  \<open>lesson_id = L\<close> and no tag row of those words remains. It fails on the store \<open>db_one\<close>:
  the DELETE removes lesson 1, and the word of lesson 1 and its tag are still there.
\<close>

theorem deleteLesson_cascade_counterexample:
  "lessons_tbl db_one = [\<lparr>l_id = 1, l_main_name = ''Main Name'', l_sub_name = ''Sub Name''\<rparr>]
   \<and> lessons_tbl (deleteLesson StepDone 1 db_one) = []
   \<and> words_tbl (deleteLesson StepDone 1 db_one)
       = [\<lparr>w_id = 1, w_lesson_id = Some 1, w_kana = ''as'', w_translation = ''translation1'',
           w_romaji = Some ''romaji1'', w_example_sentence = Some ''example1''\<rparr>]
   \<and> tags_tbl (deleteLesson StepDone 1 db_one) = [\<lparr>t_id = 1, t_word_id = Some 1, t_tag = ''tag1''\<rparr>]"
  by (simp add: db_one_tables deleteLesson_def log_to_def)

text \<open>
  Claim C2, amended: when its DELETE statement runs, \<open>deleteLesson(L)\<close> removes exactly the
  lesson rows with id \<open>L\<close>, so that none remains; whatever SQLite answers, every word row
  and every tag row is left as it was (there is no cascade).
\<close>

theorem deleteLesson_removes_lesson_rows_only:
  "lessonId \<notin> l_id ` set (lessons_tbl (deleteLesson StepDone lessonId db))
   \<and> lessons_tbl (deleteLesson StepDone lessonId db) = filter (\<lambda>row. l_id row \<noteq> lessonId) (lessons_tbl db)
   \<and> words_tbl (deleteLesson r lessonId db) = words_tbl db
   \<and> tags_tbl (deleteLesson r lessonId db) = tags_tbl db"
  by (cases r) (auto simp add: deleteLesson_def log_to_def)

subsection \<open>addLesson\<close>

lemma addLesson_StepDone_cast:
  "fst (addLesson StepDone m n db) = static_cast_int (next_rowid (lessons_seq db) (map l_id (lessons_tbl db)))"
  by (simp add: addLesson_def insert_lesson_def Let_def)

lemma addLesson_StepDone_ids:
  "map l_id (lessons_tbl (snd (addLesson StepDone m n db)))
     = map l_id (lessons_tbl db) @ [next_rowid (lessons_seq db) (map l_id (lessons_tbl db))]"
  by (simp add: addLesson_def insert_lesson_def log_to_def Let_def)

text \<open>
  Claim C5, as stated: addLesson returns a fresh positive id when the insert succeeds, and
  a negative id, with a log line, when the preparation or the write fails. It fails in
  these places. When \<open>sqlite3_prepare_v2\<close> fails, \<open>-1\<close> is returned and nothing is logged.
  When the insert succeeds with the row id \<open>2^31\<close>, the cast to \<open>int\<close> returns \<open>-2^31\<close>.
  When the lessons table holds only the row \<open>-10\<close> and its counter is \<open>-20\<close>, the new row
  gets the id \<open>-9\<close>, which is returned. When the table holds lesson 5 and the counter has
  reached \<open>2^32 + 4\<close>, the new row gets the id \<open>2^32 + 5\<close> and the cast returns 5, the id
  of the lesson already there.
\<close>

theorem addLesson_counterexample:
  "addLesson PrepareError ''Main Name'' ''Sub Name'' empty_db = (- 1, empty_db)
   \<and> m_logger (snd (addLesson PrepareError ''Main Name'' ''Sub Name'' empty_db)) = []
   \<and> fst (addLesson StepDone ''Main Name'' ''Sub Name'' (empty_db\<lparr>lessons_seq := 2147483647\<rparr>))
       = - 2147483648
   \<and> fst (addLesson StepDone ''Main Name'' ''Sub Name'' db_negative_ids) = - 9
   \<and> fst (addLesson StepDone ''Main Name'' ''Sub Name'' db_large_counter) = 5
   \<and> map l_id (lessons_tbl db_large_counter) = [5]"
  by (simp add: addLesson_def empty_db_def db_negative_ids_def db_large_counter_def insert_lesson_def
      next_rowid_def static_cast_int_def Let_def)

text \<open>
  Claim C5, amended: when the preparation fails, addLesson returns \<open>-1\<close> and leaves the
  store and the log as they were; when the write fails, it returns \<open>-1\<close> and logs one
  PROBLEM line. When the insert succeeds and the row id SQLite gave the new row lies
  between 1 and \<open>2^31 - 1\<close>, the returned id is that row id, is positive, is above the
  table's counter and is the id of no lesson row already there, and the table's ids are
  the former ones followed by it. Every case returns a value: nothing is thrown.
\<close>

theorem addLesson_result:
  "addLesson PrepareError m n db = (- 1, db)
   \<and> addLesson (StepError msg) m n db
       = (- 1, db\<lparr>m_logger := m_logger db @ [(''Database: SQL error while adding lesson: '' @ msg, PROBLEM)]\<rparr>)
   \<and> (0 < next_rowid (lessons_seq db) (map l_id (lessons_tbl db))
        \<and> next_rowid (lessons_seq db) (map l_id (lessons_tbl db)) < 2147483648 \<longrightarrow>
        fst (addLesson StepDone m n db) = next_rowid (lessons_seq db) (map l_id (lessons_tbl db))
        \<and> 0 < fst (addLesson StepDone m n db)
        \<and> lessons_seq db < fst (addLesson StepDone m n db)
        \<and> fst (addLesson StepDone m n db) \<notin> l_id ` set (lessons_tbl db)
        \<and> map l_id (lessons_tbl (snd (addLesson StepDone m n db)))
            = map l_id (lessons_tbl db) @ [fst (addLesson StepDone m n db)])"
proof (intro conjI impI)
  show "addLesson PrepareError m n db = (- 1, db)"
    by (simp add: addLesson_def)
  show "addLesson (StepError msg) m n db
       = (- 1, db\<lparr>m_logger := m_logger db @ [(''Database: SQL error while adding lesson: '' @ msg, PROBLEM)]\<rparr>)"
    by (simp add: addLesson_def log_to_def)
next
  let ?rid = "next_rowid (lessons_seq db) (map l_id (lessons_tbl db))"
  assume a: "0 < ?rid \<and> ?rid < 2147483648"
  then have "static_cast_int ?rid = ?rid"
    by (simp add: static_cast_int_id)
  then show id: "fst (addLesson StepDone m n db) = ?rid"
    by (simp add: addLesson_StepDone_cast)
  show "0 < fst (addLesson StepDone m n db)"
    using a id by simp
  show "lessons_seq db < fst (addLesson StepDone m n db)"
    using id next_rowid_gt_seq [of "lessons_seq db" "map l_id (lessons_tbl db)"] by simp
  show "fst (addLesson StepDone m n db) \<notin> l_id ` set (lessons_tbl db)"
    using id next_rowid_fresh [of "lessons_seq db" "map l_id (lessons_tbl db)"] by simp
  show "map l_id (lessons_tbl (snd (addLesson StepDone m n db)))
            = map l_id (lessons_tbl db) @ [fst (addLesson StepDone m n db)]"
    using id by (simp add: addLesson_StepDone_ids)
qed

theorem addLesson_result_witness:
  "0 < next_rowid (lessons_seq db_one) (map l_id (lessons_tbl db_one))
   \<and> next_rowid (lessons_seq db_one) (map l_id (lessons_tbl db_one)) < 2147483648
   \<and> fst (addLesson StepDone ''Main Name 2'' ''Sub Name 2'' db_one) = 2
   \<and> 0 < fst (addLesson StepDone ''Main Name 2'' ''Sub Name 2'' db_one)
   \<and> lessons_seq db_one < fst (addLesson StepDone ''Main Name 2'' ''Sub Name 2'' db_one)
   \<and> fst (addLesson StepDone ''Main Name 2'' ''Sub Name 2'' db_one) \<notin> l_id ` set (lessons_tbl db_one)
   \<and> map l_id (lessons_tbl (snd (addLesson StepDone ''Main Name 2'' ''Sub Name 2'' db_one))) = [1, 2]"
  using addLesson_result [of "''Main Name 2''" "''Sub Name 2''" db_one "[]"]
  by (simp add: db_one_tables next_rowid_def addLesson_def insert_lesson_def static_cast_int_def Let_def)

text \<open>On a new database, and on an empty table whose counter is negative, the first id is 1.\<close>

lemma addLesson_first_id:
  "fst (addLesson StepDone m n empty_db) = 1
   \<and> fst (addLesson StepDone m n (empty_db\<lparr>lessons_seq := - 5\<rparr>)) = 1"
  by (simp add: addLesson_def empty_db_def insert_lesson_def next_rowid_def static_cast_int_def Let_def)

subsection \<open>getLessonNames\<close>

lemma getLessonNames_loop_map:
  "getLessonNames_loop rows acc
     = acc @ map (\<lambda>row. c_str (l_main_name row) @ '' - '' @ c_str (l_sub_name row)) rows"
  by (induction rows arbitrary: acc) simp_all

lemma names_no_NUL:
  "list_all (\<lambda>row. no_NUL (l_main_name row) \<and> no_NUL (l_sub_name row)) rows \<Longrightarrow>
   map (\<lambda>row. c_str (l_main_name row) @ '' - '' @ c_str (l_sub_name row)) rows
     = map (\<lambda>row. l_main_name row @ '' - '' @ l_sub_name row) rows"
  by (induction rows) (simp_all add: c_str_no_NUL)

text \<open>
  Claim C7, as stated: for every store, getLessonNames returns one text per lesson row,
  the row's main name, \<open>" - "\<close> and its sub name. It fails in these places. On \<open>db_one\<close>,
  which holds one lesson, a failed \<open>sqlite3_prepare_v2\<close> gives the empty vector. On
  \<open>db_lessons\<close>, which holds two, a step that stops after the first row gives one name. On
  \<open>db_nul_name\<close>, whose lesson has the main name \<open>a NUL b\<close>, the name returned is
  \<open>"a - x"\<close>.
\<close>

theorem getLessonNames_counterexample:
  "map l_id (lessons_tbl db_one) = [1]
   \<and> getLessonNames SelectPrepareError db_one = []
   \<and> map l_id (lessons_tbl db_lessons) = [1, 2]
   \<and> getLessonNames (SelectStops 1) db_lessons = [''Main Name - Sub Name'']
   \<and> map l_main_name (lessons_tbl db_nul_name) = [''a'' @ [CHR 0x00] @ ''b'']
   \<and> getLessonNames SelectDone db_nul_name = [''a - x'']"
  by (simp add: db_one_tables db_lessons_table db_nul_name_def empty_db_def getLessonNames_def visited_def
      c_str_def)

text \<open>
  Claim C7, amended: for every store and every answer of SQLite, getLessonNames returns,
  in the iteration order of the table, one text for each lesson row its SELECT visited
  (no row when the preparation fails, the first \<open>n\<close> rows when the stepping stops after
  \<open>n\<close>, every row when it runs to the end): the row's main name up to its first NUL, then
  \<open>" - "\<close>, then its sub name up to its first NUL. When the SELECT runs to the end and no
  name of the table holds a NUL, these are the whole names of every lesson row.
\<close>

theorem getLessonNames_visited_rows:
  "getLessonNames r db
     = map (\<lambda>row. c_str (l_main_name row) @ '' - '' @ c_str (l_sub_name row)) (visited r (lessons_tbl db))
   \<and> visited SelectPrepareError (lessons_tbl db) = []
   \<and> visited (SelectStops k) (lessons_tbl db) = take k (lessons_tbl db)
   \<and> visited SelectDone (lessons_tbl db) = lessons_tbl db
   \<and> (list_all (\<lambda>row. no_NUL (l_main_name row) \<and> no_NUL (l_sub_name row)) (lessons_tbl db) \<longrightarrow>
        getLessonNames SelectDone db
          = map (\<lambda>row. l_main_name row @ '' - '' @ l_sub_name row) (lessons_tbl db))"
proof (intro conjI impI)
  show names: "getLessonNames r db
     = map (\<lambda>row. c_str (l_main_name row) @ '' - '' @ c_str (l_sub_name row)) (visited r (lessons_tbl db))" for r
    by (simp add: getLessonNames_def getLessonNames_loop_map)
  show "visited SelectPrepareError (lessons_tbl db) = []"
    by (simp add: visited_def)
  show "visited (SelectStops k) (lessons_tbl db) = take k (lessons_tbl db)"
    by (simp add: visited_def)
  show all: "visited SelectDone (lessons_tbl db) = lessons_tbl db"
    by (simp add: visited_def)
  assume "list_all (\<lambda>row. no_NUL (l_main_name row) \<and> no_NUL (l_sub_name row)) (lessons_tbl db)"
  then have "map (\<lambda>row. c_str (l_main_name row) @ '' - '' @ c_str (l_sub_name row)) (lessons_tbl db)
     = map (\<lambda>row. l_main_name row @ '' - '' @ l_sub_name row) (lessons_tbl db)"
    by (rule names_no_NUL)
  then show "getLessonNames SelectDone db
          = map (\<lambda>row. l_main_name row @ '' - '' @ l_sub_name row) (lessons_tbl db)"
    using names [of SelectDone] all by simp
qed

theorem getLessonNames_visited_rows_witness:
  "list_all (\<lambda>row. no_NUL (l_main_name row) \<and> no_NUL (l_sub_name row)) (lessons_tbl db_lessons)
   \<and> getLessonNames SelectDone db_lessons = [''Main Name - Sub Name'', ''Main Name 2 - Sub Name 2'']"
  using getLessonNames_visited_rows [of SelectDone db_lessons 0]
  by (simp add: db_lessons_table no_NUL_def c_str_def visited_def)

subsection \<open>updateWord\<close>




subsection \<open>addTag\<close>

text \<open>
  Claim C10: when the statement was prepared, addTag logs the INFO line "Added tag" also
  when the INSERT step failed. A failed step changes nothing but the log, where the
  PROBLEM line stands before the INFO line that a successful step logs too; addTag
  returns no value.
\<close>

theorem addTag_logs_added_tag:
  "m_logger (addTag StepDone wordId t db)
     = m_logger db @ [(''Database: Added tag '' @ [CHR 0x27] @ t @ [CHR 0x27] @ '' to word ID ''
                         @ to_string wordId, INFO)]
   \<and> addTag (StepError msg) wordId t db
     = db\<lparr>m_logger := m_logger db @
            [(''Database: SQL error while adding tag: '' @ msg, PROBLEM),
             (''Database: Added tag '' @ [CHR 0x27] @ t @ [CHR 0x27] @ '' to word ID ''
                @ to_string wordId, INFO)]\<rparr>"
  by (simp add: addTag_def log_to_def insert_tag_def Let_def)

section \<open>Properties of the lesson manager\<close>

subsection \<open>What the traced backend records\<close>

lemma addTags_traced:
  "addTags (traced B) wordId ts (tr, s) = (tr @ map (AddTagCall wordId) ts, addTags B wordId ts s)"
  by (induction ts arbitrary: tr s) (simp_all add: traced_def)

lemma addWords_traced:
  "addWords (traced B) lessonId ws (tr, s) = (tr @ word_calls B lessonId ws s, addWords B lessonId ws s)"
proof (induction ws arbitrary: tr s)
  case Nil
  show ?case by simp
next
  case (Cons w ws)
  obtain wordId s1 where r: "db_addWord B lessonId w s = (wordId, s1)"
    by (cases "db_addWord B lessonId w s")
  then have "db_addWord (traced B) lessonId w (tr, s) = (wordId, (tr @ [AddWordCall lessonId w], s1))"
    by (simp add: traced_def)
  then show ?case
    using r by (simp add: addTags_traced Cons.IH)
qed

lemma addLesson_traced:
  "LessonManager_addLesson (traced B) lesson (tr, s) =
     (fst (db_addLesson B (mainName lesson) (subName lesson) s),
      (tr @ AddLessonCall (mainName lesson) (subName lesson)
            # word_calls B (fst (db_addLesson B (mainName lesson) (subName lesson) s)) (words lesson)
                (snd (db_addLesson B (mainName lesson) (subName lesson) s)),
       snd (LessonManager_addLesson B lesson s)))"
proof -
  obtain lessonId s1 where r: "db_addLesson B (mainName lesson) (subName lesson) s = (lessonId, s1)"
    by (cases "db_addLesson B (mainName lesson) (subName lesson) s")
  then have "db_addLesson (traced B) (mainName lesson) (subName lesson) (tr, s)
      = (lessonId, (tr @ [AddLessonCall (mainName lesson) (subName lesson)], s1))"
    by (simp add: traced_def)
  then show ?thesis
    using r by (simp add: LessonManager_addLesson_def addWords_traced)
qed

lemma addLesson_traced_calls:
  "snd (LessonManager_addLesson (traced B) lesson (tr, s)) =
     (tr @ addLesson_calls B lesson s, snd (LessonManager_addLesson B lesson s))"
  by (simp add: addLesson_calls_def addLesson_traced)

lemma MockDatabase_ops:
  "db_addLesson MockDatabase m n s = next_id s"
  "db_addWord MockDatabase l w s = next_id s"
  "db_addTag MockDatabase i t s = s"
  "db_updateLesson MockDatabase i m n s = s"
  "db_getAllLessons MockDatabase s = (snd s, s)"
  by (simp_all add: MockDatabase_def)

subsection \<open>addLesson\<close>

text \<open>
  Claim C1: on every backend and in every state of it, \<open>LessonManager.addLesson(L)\<close> calls
  the backend's \<open>addLesson(L.mainName, L.subName)\<close> once, then for each word of \<open>L.words\<close>
  in sequence order \<open>addWord\<close> with the returned lesson id and that word, then for each
  tag of that word in sequence order \<open>addTag\<close> with the word id the backend returned for
  that word; it returns the lesson id the backend returned, makes no other call, and
  leaves the backend in the state these calls lead to.
\<close>

theorem LessonManager_addLesson_calls:
  "LessonManager_addLesson (traced B) lesson (tr, s) =
     (fst (db_addLesson B (mainName lesson) (subName lesson) s),
      (tr @ AddLessonCall (mainName lesson) (subName lesson)
            # word_calls B (fst (db_addLesson B (mainName lesson) (subName lesson) s)) (words lesson)
                (snd (db_addLesson B (mainName lesson) (subName lesson) s)),
       snd (LessonManager_addLesson B lesson s)))"
  by (rule addLesson_traced)

text \<open>The test LessonManagerTest.AddLesson: the mock returns 1, 2 and 3.\<close>

theorem LessonManagerTest_AddLesson:
  "LessonManager_addLesson (traced MockDatabase) test_lesson ([], ([1, 2, 3], []))
     = (1, ([AddLessonCall ''Main Name'' ''Sub Name'',
             AddWordCall 1 word1, AddTagCall 2 ''tag1'',
             AddWordCall 1 word2, AddTagCall 3 ''tag2''], ([], [])))"
  using LessonManager_addLesson_calls [of MockDatabase test_lesson "[]" "([1, 2, 3], [])"]
  by (simp add: MockDatabase_ops next_id_def test_lesson_def word1_def word2_def LessonManager_addLesson_def)

subsection \<open>addLessons\<close>

lemma MockDatabase_lesson_a:
  "LessonManager_addLesson MockDatabase lesson_a ([1, 2, 3, 4], []) = (1, ([3, 4], []))"
  by (simp add: LessonManager_addLesson_def MockDatabase_ops next_id_def lesson_a_def tagged_word_def)

lemma MockDatabase_lesson_b:
  "LessonManager_addLesson MockDatabase lesson_b ([3, 4], []) = (3, ([], []))"
  by (simp add: LessonManager_addLesson_def MockDatabase_ops next_id_def lesson_b_def tagged_word_def)

lemma addLesson_calls_lesson_a:
  "addLesson_calls MockDatabase lesson_a ([1, 2, 3, 4], [])
     = [AddLessonCall ''Main Name 1'' ''Sub Name 1'', AddWordCall 1 (tagged_word ''tag1''), AddTagCall 2 ''tag1'']"
  by (simp add: addLesson_calls_def addLesson_traced MockDatabase_ops next_id_def lesson_a_def tagged_word_def)

lemma addLesson_calls_lesson_b:
  "addLesson_calls MockDatabase lesson_b ([3, 4], [])
     = [AddLessonCall ''Main Name 2'' ''Sub Name 2'', AddWordCall 3 (tagged_word ''tag2''), AddTagCall 4 ''tag2'']"
  by (simp add: addLesson_calls_def addLesson_traced MockDatabase_ops next_id_def lesson_b_def tagged_word_def)

text \<open>
  Claim C4: for every sequence of lessons, the calls of \<open>addLessons([L1, ..., Ln])\<close> are the
  calls of \<open>addLesson(L1)\<close>, followed by those of \<open>addLesson(L2)\<close> in the state the first
  left, and so on to \<open>addLesson(Ln)\<close>: each lesson's calls form one block, and the backend
  ends in the state the successive \<open>addLesson\<close> runs lead to.
\<close>

theorem LessonManager_addLessons_blocks:
  "LessonManager_addLessons (traced B) lessons (tr, s) =
     (tr @ addLesson_blocks B lessons s, LessonManager_addLessons B lessons s)"
  by (induction lessons arbitrary: tr s) (simp_all add: addLesson_traced_calls)

text \<open>The test LessonManagerTest.AddLessons: the mock returns 1, 2, 3 and 4.\<close>

theorem LessonManagerTest_AddLessons:
  "LessonManager_addLessons (traced MockDatabase) [lesson_a, lesson_b] ([], ([1, 2, 3, 4], []))
     = (addLesson_calls MockDatabase lesson_a ([1, 2, 3, 4], []) @ addLesson_calls MockDatabase lesson_b ([3, 4], []),
        ([], []))
   \<and> LessonManager_addLessons (traced MockDatabase) [lesson_a, lesson_b] ([], ([1, 2, 3, 4], []))
     = ([AddLessonCall ''Main Name 1'' ''Sub Name 1'', AddWordCall 1 (tagged_word ''tag1''), AddTagCall 2 ''tag1'',
         AddLessonCall ''Main Name 2'' ''Sub Name 2'', AddWordCall 3 (tagged_word ''tag2''), AddTagCall 4 ''tag2''],
        ([], []))"
  using LessonManager_addLessons_blocks [of MockDatabase "[lesson_a, lesson_b]" "[]" "([1, 2, 3, 4], [])"]
  by (simp add: MockDatabase_lesson_a MockDatabase_lesson_b addLesson_calls_lesson_a addLesson_calls_lesson_b)

subsection \<open>renameLessons\<close>

text \<open>
  Claim C9: for every sequence of lessons, \<open>renameLessons\<close> makes exactly one backend call
  per lesson, in order, \<open>updateLesson\<close> with the lesson's id, main name and sub name, and
  no other call; the calls are the same whatever words the lessons carry.
\<close>

theorem LessonManager_renameLessons_calls:
  "LessonManager_renameLessons (traced B) lessons (tr, s) =
     (tr @ map (\<lambda>lesson. UpdateLessonCall (lesson_id lesson) (mainName lesson) (subName lesson)) lessons,
      LessonManager_renameLessons B lessons s)
   \<and> fst (LessonManager_renameLessons (traced B) (map (\<lambda>lesson. lesson\<lparr>words := ws lesson\<rparr>) lessons) (tr, s))
      = fst (LessonManager_renameLessons (traced B) lessons (tr, s))"
proof -
  have calls: "LessonManager_renameLessons (traced B) ls (tr, s) =
     (tr @ map (\<lambda>lesson. UpdateLessonCall (lesson_id lesson) (mainName lesson) (subName lesson)) ls,
      LessonManager_renameLessons B ls s)" for ls
    by (induction ls arbitrary: tr s) (simp_all add: traced_def)
  show ?thesis
    by (simp add: calls o_def)
qed

text \<open>The test LessonManagerTest.RenameLessons.\<close>

theorem LessonManagerTest_RenameLessons:
  "LessonManager_renameLessons (traced MockDatabase) [lesson1, lesson2] ([], ([], []))
     = ([UpdateLessonCall 1 ''Main Name 1'' ''Sub Name 1'', UpdateLessonCall 2 ''Main Name 2'' ''Sub Name 2''],
        ([], []))"
  using LessonManager_renameLessons_calls [of MockDatabase "[lesson1, lesson2]" "[]" "([], [])"]
  by (simp add: MockDatabase_ops lesson1_def lesson2_def)

subsection \<open>getAllLessons\<close>

text \<open>
  Claim C3: on every backend and in every state of it, \<open>LessonManager.getAllLessons()\<close>
  returns exactly the sequence the backend's \<open>getAllLessons()\<close> returns, lessons with
  their words and tags, and makes that one backend call and no other.
\<close>

theorem LessonManager_getAllLessons_pass_through:
  "LessonManager_getAllLessons (traced B) (tr, s) =
     (fst (db_getAllLessons B s), (tr @ [GetAllLessonsCall], snd (db_getAllLessons B s)))
   \<and> fst (LessonManager_getAllLessons B s) = fst (db_getAllLessons B s)"
  by (simp add: LessonManager_getAllLessons_def traced_def split: prod.split)

text \<open>The test LessonManagerTest.GetAllLessons.\<close>

theorem LessonManagerTest_GetAllLessons:
  "LessonManager_getAllLessons (traced MockDatabase) ([], ([], [lesson1, lesson2]))
     = ([lesson1, lesson2], ([GetAllLessonsCall], ([], [lesson1, lesson2])))"
  using LessonManager_getAllLessons_pass_through [of MockDatabase "[]" "([], [lesson1, lesson2])"]
  by (simp add: MockDatabase_ops)

end
